theory Spec2Isabelle
  imports Main "HOL-Library.Sublist"
begin

section \<open>Blink: domain classifier, session tracker, scheduler and break banner\<close>

text \<open>
  The development embeds the parts of \<^verbatim>\<open>background.js\<close> (service worker) and of the
  content script that carry the extension's state: the URL classifier, the persisted
  per-domain statistics, the productivity and distraction streaks, the periodic
  threshold check, the page-load reconciliation of the displayed time and the break
  banner with its timers.

  Conventions. JavaScript numbers are timestamps and durations in milliseconds and are
  modelled as \<open>int\<close>. A variable that may hold \<^verbatim>\<open>null\<close> or \<^verbatim>\<open>undefined\<close> is an
  \<open>option\<close>. The JavaScript tests \<^verbatim>\<open>if (x)\<close>, \<^verbatim>\<open>!x\<close> and \<^verbatim>\<open>x || y\<close> are written with
  the truthiness predicates below: \<^verbatim>\<open>null\<close>, \<^verbatim>\<open>0\<close> and the empty string are falsy.
  \<^verbatim>\<open>Date.now()\<close> is the parameter \<open>now\<close> of every function that reads the clock.
  \<^verbatim>\<open>chrome.storage\<close> is a record of the keys the code uses and a read returns the last
  value written. A storage call may be rejected in the one handler that catches the
  rejection, \<^verbatim>\<open>addDomainTime\<close>; everywhere else the calls resolve.
\<close>

subsection \<open>JavaScript truthiness\<close>

definition truthy_num :: "int option \<Rightarrow> bool" where
  "truthy_num x = (case x of None \<Rightarrow> False | Some n \<Rightarrow> n \<noteq> 0)"

definition truthy_str :: "string option \<Rightarrow> bool" where
  "truthy_str x = (case x of None \<Rightarrow> False | Some s \<Rightarrow> s \<noteq> [])"

text \<open>\<^verbatim>\<open>x || d\<close> for a number and for a string.\<close>

definition or_num :: "int option \<Rightarrow> int \<Rightarrow> int" where
  "or_num x d = (case x of None \<Rightarrow> d | Some n \<Rightarrow> if n \<noteq> 0 then n else d)"

definition or_str :: "string option \<Rightarrow> string option \<Rightarrow> string option" where
  "or_str x d = (if truthy_str x then x else d)"

subsection \<open>Domain classifier (\<^verbatim>\<open>getCategoryForUrl\<close>)\<close>

text \<open>\<^verbatim>\<open>s.includes(p)\<close>: \<open>p\<close> occurs in \<open>s\<close> as a contiguous substring.\<close>

fun str_includes :: "string \<Rightarrow> string \<Rightarrow> bool" where
  "str_includes [] p = (p = [])"
| "str_includes (c # s) p = (prefix p (c # s) \<or> str_includes s p)"

text \<open>
  The two fields of a parsed \<^verbatim>\<open>URL\<close> object that the code reads. The constructor
  \<^verbatim>\<open>new URL(url)\<close> belongs to the platform, not to the repository: the classifier takes
  it as the parameter \<open>parse\<close>, which returns \<open>None\<close> where the constructor throws
  \<^verbatim>\<open>TypeError: Invalid URL\<close>.
\<close>

record url =
  hostname :: string
  pathname :: string

type_synonym url_parser = "string \<Rightarrow> url option"

text \<open>
  A category map in the order of \<^verbatim>\<open>Object.entries(map)\<close>: each category with its list
  of patterns.
\<close>

type_synonym category_map = "(string \<times> string list) list"

definition DEFAULT_CATEGORY_MAP :: category_map where
  "DEFAULT_CATEGORY_MAP =
    [(''social'', [''youtube.com'', ''instagram.com'', ''twitter.com'', ''tiktok.com'',
                   ''facebook.com'', ''reddit.com'']),
     (''games'', [''roblox.com'', ''steampowered.com'', ''epicgames.com'', ''miniclip.com'']),
     (''school'', [''classroom.google.com'', ''canvas.instructure.com'', ''google.com/drive'',
                   ''docs.google.com'']),
     (''productive'', [''notion.so'', ''github.com'', ''stackoverflow.com'',
                       ''drive.google.com'', ''docs.google.com''])]"

text \<open>
  The inner loop over the patterns of one category: \<open>True\<close> when a \<^verbatim>\<open>return cat\<close>
  is reached. An empty pattern is skipped by \<^verbatim>\<open>if (!p) continue\<close>.
\<close>

fun match_patterns :: "string \<Rightarrow> string \<Rightarrow> string list \<Rightarrow> bool" where
  "match_patterns host u [] = False"
| "match_patterns host u (p # ps) =
     (if p = [] then match_patterns host u ps
      else if str_includes host p \<or> str_includes u p then True
      else match_patterns host u ps)"

text \<open>The outer loop over the entries: the category returned, or \<open>None\<close> when both
  loops run to their end.\<close>

fun scan_entries :: "string \<Rightarrow> string \<Rightarrow> category_map \<Rightarrow> string option" where
  "scan_entries host u [] = None"
| "scan_entries host u ((cat, patterns) # rest) =
     (if match_patterns host u patterns then Some cat else scan_entries host u rest)"

datatype exn = InvalidURL

text \<open>
  The body of the \<^verbatim>\<open>try\<close> block: \<open>Inl\<close> is an exception raised inside it, \<open>Inr (Some cat)\<close>
  a \<^verbatim>\<open>return cat\<close>, \<open>Inr None\<close> the end of the block reached without a return.
\<close>

definition getCategoryForUrl_try :: "url_parser \<Rightarrow> string \<Rightarrow> category_map \<Rightarrow> exn + string option" where
  "getCategoryForUrl_try parse u m =
     (case parse u of
        None \<Rightarrow> Inl InvalidURL
      | Some pu \<Rightarrow> Inr (scan_entries (hostname pu @ pathname pu) u m))"

text \<open>
  The whole function as an outcome: \<open>Inr c\<close> is \<^verbatim>\<open>return c\<close> and \<open>Inl e\<close> would be an
  exception that leaves the function. The \<^verbatim>\<open>catch (e)\<close> clause is empty, so control falls
  through to the final \<^verbatim>\<open>return "other"\<close>.
\<close>

definition getCategoryForUrl_outcome :: "url_parser \<Rightarrow> string \<Rightarrow> category_map \<Rightarrow> exn + string" where
  "getCategoryForUrl_outcome parse u m =
     (case getCategoryForUrl_try parse u m of
        Inl e \<Rightarrow> Inr ''other''
      | Inr (Some cat) \<Rightarrow> Inr cat
      | Inr None \<Rightarrow> Inr ''other'')"

text \<open>The value returned, for the callers.\<close>

definition getCategoryForUrl :: "url_parser \<Rightarrow> string \<Rightarrow> category_map \<Rightarrow> string" where
  "getCategoryForUrl parse u m =
     (case getCategoryForUrl_try parse u m of
        Inl e \<Rightarrow> ''other''
      | Inr (Some cat) \<Rightarrow> cat
      | Inr None \<Rightarrow> ''other'')"

text \<open>
  A fragment of the platform's URL constructor, used to run the examples only:
  \<^verbatim>\<open>http://host/path\<close> and \<^verbatim>\<open>https://host/path\<close> with a non-empty host, the path
  ending at \<^verbatim>\<open>?\<close> or \<^verbatim>\<open>#\<close> and defaulting to \<^verbatim>\<open>/\<close>. Any other string is rejected, as
  the constructor rejects a string without a scheme.
\<close>

definition split_authority :: "string \<Rightarrow> url option" where
  "split_authority r =
     (let h = takeWhile (\<lambda>c. c \<noteq> CHR ''/'' \<and> c \<noteq> CHR ''?'' \<and> c \<noteq> CHR ''#'') r;
          rest = dropWhile (\<lambda>c. c \<noteq> CHR ''/'' \<and> c \<noteq> CHR ''?'' \<and> c \<noteq> CHR ''#'') r;
          p = takeWhile (\<lambda>c. c \<noteq> CHR ''?'' \<and> c \<noteq> CHR ''#'') rest
      in if h = [] then None
         else Some \<lparr>hostname = h, pathname = (if p = [] then ''/'' else p)\<rparr>)"

definition URL_parse :: url_parser where
  "URL_parse u =
     (if prefix ''https://'' u then split_authority (drop 8 u)
      else if prefix ''http://'' u then split_authority (drop 7 u)
      else None)"

text \<open>The patterns of a map in iteration order, each with its category.\<close>

definition flatten_map :: "category_map \<Rightarrow> (string \<times> string) list" where
  "flatten_map m = concat (map (\<lambda>(cat, ps). map (Pair cat) ps) m)"

text \<open>
  The category maps the extension holds. The default map and every map the settings
  page saves (it trims names and patterns and drops the empty ones) have no empty
  pattern and no empty category name.
\<close>

definition no_empty_pattern :: "category_map \<Rightarrow> bool" where
  "no_empty_pattern m = list_all (\<lambda>(cat, ps). list_all (\<lambda>p. p \<noteq> []) ps) m"

definition no_empty_name :: "category_map \<Rightarrow> bool" where
  "no_empty_name m = list_all (\<lambda>(cat, ps). cat \<noteq> []) m"

subsection \<open>Persisted state (\<^verbatim>\<open>chrome.storage\<close>)\<close>

text \<open>
  One entry of the \<^verbatim>\<open>domainStats\<close> object. \<^verbatim>\<open>saveDomainTime\<close> creates entries without a
  \<^verbatim>\<open>lastActive\<close> field (\<open>None\<close>); the \<^verbatim>\<open>addDomainTime\<close> handler creates them with
  \<^verbatim>\<open>category: null\<close> (\<open>None\<close>).
\<close>

record entry =
  time :: int
  category :: "string option"
  lastActive :: "int option"

text \<open>
  The keys of \<^verbatim>\<open>chrome.storage.local\<close>. Every reader applies \<^verbatim>\<open>|| {}\<close> or \<^verbatim>\<open>|| 0\<close> to what
  it reads, so an absent key is the empty map or \<open>0\<close>.
\<close>

record local_storage =
  domainStats :: "string \<rightharpoonup> entry"
  lastShownBreakThreshold :: int
  stored_productiveAccumulated :: int

subsection \<open>Runtime state of the service worker\<close>

record background =
  activeTabId :: "int option"
  activeDomain :: "string option"
  activeCategory :: "string option"
  activeStart :: int
  productiveSessionStart :: "int option"
  productiveAccumulated :: int
  distractingStart :: "int option"
  local :: local_storage
  sync_categoryMap :: "category_map option"

definition GET_BACK_THRESHOLD :: int where
  "GET_BACK_THRESHOLD = 15 * 60 * 1000"

definition BREAK_THRESHOLDS :: "int list" where
  "BREAK_THRESHOLDS = [2 * 60 * 60 * 1000, 3 * 60 * 60 * 1000, 4 * 60 * 60 * 1000]"

text \<open>\<^verbatim>\<open>loadPrefs\<close>: the stored category map, or the default one.\<close>

definition loadPrefs :: "background \<Rightarrow> category_map" where
  "loadPrefs b = (case sync_categoryMap b of None \<Rightarrow> DEFAULT_CATEGORY_MAP | Some m \<Rightarrow> m)"

text \<open>Messages the service worker sends to the tabs.\<close>

datatype tab_message =
    ShowBreak int
  | GetBackToWork int
  | ActiveCategory int string
  | StartBreak "int option"

subsection \<open>\<^verbatim>\<open>saveDomainTime\<close>\<close>

text \<open>
  The function reads the whole \<^verbatim>\<open>domainStats\<close> object, changes its copy and writes the
  copy back. \<open>saveDomainTime_update\<close> is what happens to the copy between the two
  \<^verbatim>\<open>await\<close>s, for a truthy domain.
\<close>

definition saveDomainTime_update :: "string \<Rightarrow> string \<Rightarrow> int \<Rightarrow> (string \<rightharpoonup> entry) \<Rightarrow> (string \<rightharpoonup> entry)" where
  "saveDomainTime_update d cat deltaMs m =
     (let e = (case m d of
                 Some e0 \<Rightarrow> e0
               | None \<Rightarrow> \<lparr>time = 0, category = Some (if cat \<noteq> [] then cat else ''other''),
                          lastActive = None\<rparr>);
          e1 = e\<lparr>time := time e + deltaMs\<rparr>;
          e2 = e1\<lparr>category := (if cat \<noteq> [] then Some cat else category e1)\<rparr>
      in m(d \<mapsto> e2))"

definition saveDomainTime :: "string option \<Rightarrow> string \<Rightarrow> int \<Rightarrow> local_storage \<Rightarrow> local_storage" where
  "saveDomainTime domain cat deltaMs s =
     (case domain of
        None \<Rightarrow> s
      | Some d \<Rightarrow>
          if d = [] then s
          else s\<lparr>domainStats := saveDomainTime_update d cat deltaMs (domainStats s)\<rparr>)"

subsection \<open>\<^verbatim>\<open>handleTabChange\<close>\<close>

record tab =
  tab_id :: int
  tab_url :: "string option"

text \<open>
  The category of the interval that a focus change closes: \<open>None\<close> when there is no
  interval to close (\<^verbatim>\<open>activeDomain && activeStart\<close> is falsy).
\<close>

definition closed_category :: "url_parser \<Rightarrow> background \<Rightarrow> string option" where
  "closed_category parse b =
     (case activeDomain b of
        None \<Rightarrow> None
      | Some d \<Rightarrow>
          if d = [] \<or> activeStart b = 0 then None
          else Some (case activeCategory b of
                       None \<Rightarrow> getCategoryForUrl parse d (loadPrefs b)
                     | Some c \<Rightarrow> if c \<noteq> [] then c else getCategoryForUrl parse d (loadPrefs b)))"

text \<open>The first half of \<^verbatim>\<open>handleTabChange\<close>: store the time of the previous tab and
  update the streaks.\<close>

definition close_interval :: "url_parser \<Rightarrow> int \<Rightarrow> background \<Rightarrow> background" where
  "close_interval parse now b =
     (case closed_category parse b of
        None \<Rightarrow> b
      | Some cat \<Rightarrow>
          let delta = now - activeStart b;
              b1 = b\<lparr>local := saveDomainTime (activeDomain b) cat delta (local b)\<rparr>
          in if cat = ''productive'' \<or> cat = ''school'' then
               b1\<lparr>productiveSessionStart :=
                     (if truthy_num (productiveSessionStart b1) then productiveSessionStart b1
                      else Some (activeStart b1)),
                   productiveAccumulated := productiveAccumulated b1 + delta,
                   distractingStart := None\<rparr>
             else if cat = ''social'' \<or> cat = ''games'' \<or> cat = ''other'' then
               b1\<lparr>productiveSessionStart := None,
                   distractingStart :=
                     (if truthy_num (distractingStart b1) then distractingStart b1
                      else Some (now - delta))\<rparr>
             else b1)"

text \<open>
  The second half: the new active tab. \<^verbatim>\<open>new URL(tab.url).hostname\<close> is outside any
  \<^verbatim>\<open>try\<close>, so a URL that does not parse ends the function with the exception, after
  \<^verbatim>\<open>activeTabId\<close> has been assigned.
\<close>

definition open_tab :: "url_parser \<Rightarrow> int \<Rightarrow> tab option \<Rightarrow> background \<Rightarrow> (exn + tab_message list) \<times> background" where
  "open_tab parse now tb b =
     (let cleared = b\<lparr>activeTabId := None, activeDomain := None, activeCategory := None,
                       activeStart := now\<rparr>
      in case tb of
           None \<Rightarrow> (Inr [], cleared)
         | Some t \<Rightarrow>
             (case tab_url t of
                None \<Rightarrow> (Inr [], cleared)
              | Some u \<Rightarrow>
                  if u = [] then (Inr [], cleared)
                  else
                    let b2 = b\<lparr>activeTabId := Some (tab_id t)\<rparr>
                    in case parse u of
                         None \<Rightarrow> (Inl InvalidURL, b2)
                       | Some pu \<Rightarrow>
                           let c = getCategoryForUrl parse u (loadPrefs b2)
                           in (Inr [ActiveCategory (tab_id t) c],
                               b2\<lparr>activeDomain := Some (hostname pu),
                                   activeCategory := Some c,
                                   activeStart := now\<rparr>)))"

definition handleTabChange :: "url_parser \<Rightarrow> int \<Rightarrow> tab option \<Rightarrow> background \<Rightarrow> (exn + tab_message list) \<times> background" where
  "handleTabChange parse now tb b = open_tab parse now tb (close_interval parse now b)"

subsection \<open>\<^verbatim>\<open>periodicChecks\<close>\<close>

text \<open>The \<^verbatim>\<open>for\<close> loop over the thresholds: the threshold at which it breaks, if any.\<close>

fun scan_thresholds :: "int \<Rightarrow> int \<Rightarrow> int list \<Rightarrow> int option" where
  "scan_thresholds productiveDuration lastShown [] = None"
| "scan_thresholds productiveDuration lastShown (t # ts) =
     (if productiveDuration \<ge> t \<and> lastShown < t then Some t
      else scan_thresholds productiveDuration lastShown ts)"

definition tick_thresholds :: "int list" where
  "tick_thresholds = [4 * 60 * 60 * 1000, 3 * 60 * 60 * 1000, 2 * 60 * 60 * 1000]"

definition check_productive :: "int \<Rightarrow> background \<Rightarrow> tab_message list \<times> background" where
  "check_productive now b =
     (case productiveSessionStart b of
        None \<Rightarrow> ([], b)
      | Some pss \<Rightarrow>
          if pss = 0 then ([], b)
          else
            let productiveDuration = productiveAccumulated b + (now - pss);
                lastShown = lastShownBreakThreshold (local b)
            in case scan_thresholds productiveDuration lastShown tick_thresholds of
                 None \<Rightarrow> ([], b)
               | Some t \<Rightarrow> ([ShowBreak t], b\<lparr>local := (local b)\<lparr>lastShownBreakThreshold := t\<rparr>\<rparr>))"

definition check_distracting :: "int \<Rightarrow> background \<Rightarrow> tab_message list \<times> background" where
  "check_distracting now b =
     (case distractingStart b of
        None \<Rightarrow> ([], b)
      | Some ds \<Rightarrow>
          if ds = 0 then ([], b)
          else
            let distractingDuration = now - ds
            in if distractingDuration \<ge> GET_BACK_THRESHOLD
               then ([GetBackToWork distractingDuration], b\<lparr>distractingStart := None\<rparr>)
               else ([], b))"

definition periodicChecks :: "int \<Rightarrow> background \<Rightarrow> tab_message list \<times> background" where
  "periodicChecks now b =
     (let (m1, b1) = check_productive now b;
          (m2, b2) = check_distracting now b1
      in (m1 @ m2,
          b2\<lparr>local := (local b2)\<lparr>stored_productiveAccumulated := productiveAccumulated b2\<rparr>\<rparr>))"

subsection \<open>Message handlers of the service worker\<close>

text \<open>
  The payload of \<^verbatim>\<open>addDomainTime\<close>: \<^verbatim>\<open>msg.domain\<close> may be missing (\<open>None\<close>) and
  \<^verbatim>\<open>msg.deltaMs\<close> is a number or missing; \<^verbatim>\<open>Number(undefined)\<close> is \<^verbatim>\<open>NaN\<close>, which
  \<^verbatim>\<open>|| 0\<close> turns into \<open>0\<close>, as \<open>or_num\<close> does with \<open>None\<close>.
\<close>

datatype request =
    ResetBreakShown
  | AddDomainTime "string option" "int option"
  | GetDomainTime string
  | StartBreakFromPopup "int option"

record domain_time =
  r_time :: int
  r_category :: "string option"
  r_lastActive :: int

datatype response = Ok bool | DomainTime domain_time

text \<open>
  What the \<^verbatim>\<open>addDomainTime\<close> handler does to its copy of \<^verbatim>\<open>domainStats\<close> between reading
  and writing it, for a request that passed the check. The category map is the one
  \<^verbatim>\<open>loadPrefs\<close> returns.
\<close>

definition addDomainTime_update :: "url_parser \<Rightarrow> category_map \<Rightarrow> int \<Rightarrow> string \<Rightarrow> int \<Rightarrow> (string \<rightharpoonup> entry) \<Rightarrow> (string \<rightharpoonup> entry)" where
  "addDomainTime_update parse prefs now d delta m =
     (let e = (case m d of
                 Some e0 \<Rightarrow> e0
               | None \<Rightarrow> \<lparr>time = 0, category = None, lastActive = Some 0\<rparr>);
          e1 = e\<lparr>time := time e + delta\<rparr>;
          e2 = e1\<lparr>lastActive := Some now\<rparr>;
          cat = getCategoryForUrl parse (''https://'' @ d) prefs;
          e3 = e2\<lparr>category := (if truthy_str (category e2) then category e2 else Some cat)\<rparr>
      in m(d \<mapsto> e3))"

text \<open>The same when \<^verbatim>\<open>loadPrefs\<close> fails: the inner \<^verbatim>\<open>catch\<close> swallows the failure and
  the category of the entry stays as it is.\<close>

definition addDomainTime_update_no_prefs :: "int \<Rightarrow> string \<Rightarrow> int \<Rightarrow> (string \<rightharpoonup> entry) \<Rightarrow> (string \<rightharpoonup> entry)" where
  "addDomainTime_update_no_prefs now d delta m =
     (let e = (case m d of
                 Some e0 \<Rightarrow> e0
               | None \<Rightarrow> \<lparr>time = 0, category = None, lastActive = Some 0\<rparr>);
          e1 = e\<lparr>time := time e + delta\<rparr>;
          e2 = e1\<lparr>lastActive := Some now\<rparr>
      in m(d \<mapsto> e2))"

text \<open>
  The handler is the one place where the code catches a rejected storage call. What
  the three calls it awaits do is a parameter: \<^verbatim>\<open>chrome.storage.local.get\<close>,
  \<^verbatim>\<open>loadPrefs\<close> (a read of \<^verbatim>\<open>chrome.storage.sync\<close>) and \<^verbatim>\<open>chrome.storage.local.set\<close> each
  resolve or reject. A rejected \<^verbatim>\<open>get\<close> or \<^verbatim>\<open>set\<close> reaches the outer \<^verbatim>\<open>catch\<close>, which answers
  \<^verbatim>\<open>{ok: false}\<close>; a rejected \<^verbatim>\<open>set\<close> writes nothing.
\<close>

record storage_io =
  get_rejects :: bool
  prefs_rejects :: bool
  set_rejects :: bool

definition storage_ok :: storage_io where
  "storage_ok = \<lparr>get_rejects = False, prefs_rejects = False, set_rejects = False\<rparr>"

definition addDomainTime :: "url_parser \<Rightarrow> storage_io \<Rightarrow> int \<Rightarrow> string option \<Rightarrow> int option \<Rightarrow> background \<Rightarrow> response \<times> background" where
  "addDomainTime parse io now domain deltaMs b =
     (let delta = or_num deltaMs 0
      in case domain of
           None \<Rightarrow> (Ok False, b)
         | Some d \<Rightarrow>
             if d = [] \<or> delta \<le> 0 then (Ok False, b)
             else if get_rejects io then (Ok False, b)
             else
               let m = (if prefs_rejects io
                        then addDomainTime_update_no_prefs now d delta (domainStats (local b))
                        else addDomainTime_update parse (loadPrefs b) now d delta
                               (domainStats (local b)))
               in if set_rejects io then (Ok False, b)
                  else (Ok True, b\<lparr>local := (local b)\<lparr>domainStats := m\<rparr>\<rparr>))"

definition getDomainTime :: "string \<Rightarrow> background \<Rightarrow> response \<times> background" where
  "getDomainTime d b =
     (let e = (case domainStats (local b) d of
                 Some e0 \<Rightarrow> e0
               | None \<Rightarrow> \<lparr>time = 0, category = None, lastActive = Some 0\<rparr>)
      in (DomainTime \<lparr>r_time = time e,
                      r_category = or_str (category e) None,
                      r_lastActive = or_num (lastActive e) 0\<rparr>, b))"

definition resetBreakShown :: "background \<Rightarrow> response \<times> background" where
  "resetBreakShown b = (Ok True, b\<lparr>local := (local b)\<lparr>lastShownBreakThreshold := 0\<rparr>\<rparr>)"

text \<open>The dispatch on \<^verbatim>\<open>msg.action\<close>, with the messages pushed to the tabs, while
  storage calls resolve.\<close>

fun onMessage :: "url_parser \<Rightarrow> int \<Rightarrow> request \<Rightarrow> background \<Rightarrow> (response \<times> tab_message list) \<times> background" where
  "onMessage parse now ResetBreakShown b =
     (let (r, b') = resetBreakShown b in ((r, []), b'))"
| "onMessage parse now (AddDomainTime domain deltaMs) b =
     (let (r, b') = addDomainTime parse storage_ok now domain deltaMs b in ((r, []), b'))"
| "onMessage parse now (GetDomainTime d) b =
     (let (r, b') = getDomainTime d b in ((r, []), b'))"
| "onMessage parse now (StartBreakFromPopup durationMs) b =
     ((Ok True, [StartBreak durationMs]), b)"

subsection \<open>Events of the service worker\<close>

datatype bg_event =
    Tick int
  | FocusChange int "tab option"
  | Message int request

fun bg_step :: "url_parser \<Rightarrow> bg_event \<Rightarrow> background \<Rightarrow> tab_message list \<times> background" where
  "bg_step parse (Tick now) b = periodicChecks now b"
| "bg_step parse (FocusChange now tb) b =
     (case handleTabChange parse now tb b of
        (Inl e, b') \<Rightarrow> ([], b')
      | (Inr ms, b') \<Rightarrow> (ms, b'))"
| "bg_step parse (Message now rq) b =
     (case onMessage parse now rq b of ((r, ms), b') \<Rightarrow> (ms, b'))"

fun bg_run :: "url_parser \<Rightarrow> bg_event list \<Rightarrow> background \<Rightarrow> tab_message list \<times> background" where
  "bg_run parse [] b = ([], b)"
| "bg_run parse (ev # evs) b =
     (let (ms, b1) = bg_step parse ev b;
          (ms', b2) = bg_run parse evs b1
      in (ms @ ms', b2))"

subsection \<open>Interleaved read-modify-write sequences on \<^verbatim>\<open>domainStats\<close>\<close>

text \<open>
  Both \<^verbatim>\<open>saveDomainTime\<close> and the \<^verbatim>\<open>addDomainTime\<close> handler suspend at
  \<^verbatim>\<open>await chrome.storage.local.get\<close> and at \<^verbatim>\<open>await chrome.storage.local.set\<close>; another
  handler may run in between. A sequence in flight is a task: \<open>Pending\<close> before its
  read, \<open>Loaded\<close> with its private copy of the object between read and write,
  \<open>Finished\<close> after the write.
\<close>

datatype rmw =
    SaveTime string string int
  | AddTime string int int

fun rmw_domain :: "rmw \<Rightarrow> string" where
  "rmw_domain (SaveTime d cat delta) = d"
| "rmw_domain (AddTime d delta now) = d"

fun rmw_delta :: "rmw \<Rightarrow> int" where
  "rmw_delta (SaveTime d cat delta) = delta"
| "rmw_delta (AddTime d delta now) = delta"

fun rmw_update :: "url_parser \<Rightarrow> category_map \<Rightarrow> rmw \<Rightarrow> (string \<rightharpoonup> entry) \<Rightarrow> (string \<rightharpoonup> entry)" where
  "rmw_update parse prefs (SaveTime d cat delta) m = saveDomainTime_update d cat delta m"
| "rmw_update parse prefs (AddTime d delta now) m = addDomainTime_update parse prefs now d delta m"

datatype task = Pending rmw | Loaded rmw "string \<rightharpoonup> entry" | Finished

fun task_step :: "url_parser \<Rightarrow> category_map \<Rightarrow> task \<Rightarrow> local_storage \<Rightarrow> task \<times> local_storage" where
  "task_step parse prefs (Pending r) s = (Loaded r (domainStats s), s)"
| "task_step parse prefs (Loaded r m) s = (Finished, s\<lparr>domainStats := rmw_update parse prefs r m\<rparr>)"
| "task_step parse prefs Finished s = (Finished, s)"

text \<open>A schedule names, step by step, the task that resumes.\<close>

fun run_schedule :: "url_parser \<Rightarrow> category_map \<Rightarrow> nat list \<Rightarrow> task list \<times> local_storage \<Rightarrow> task list \<times> local_storage" where
  "run_schedule parse prefs [] st = st"
| "run_schedule parse prefs (i # is) (ts, s) =
     (if i < length ts
      then (let (t', s') = task_step parse prefs (ts ! i) s
            in run_schedule parse prefs is (ts[i := t'], s'))
      else run_schedule parse prefs is (ts, s))"

definition stored_time :: "local_storage \<Rightarrow> string \<Rightarrow> int" where
  "stored_time s d = (case domainStats s d of None \<Rightarrow> 0 | Some e \<Rightarrow> time e)"

subsection \<open>Content script: the displayed time at page load (\<^verbatim>\<open>loadDomainInfo\<close>)\<close>

record client =
  currentDomain :: "string option"
  currentCategory :: string
  baseDomainTimeMs :: int
  unsentAccumMs :: int

definition RESET_GAP_MS :: int where
  "RESET_GAP_MS = 30 * 60 * 1000"

text \<open>
  The callback given to \<^verbatim>\<open>sendMessageSafe\<close>; \<open>now\<close> is \<^verbatim>\<open>Date.now()\<close> when it runs and
  \<open>None\<close> is a falsy \<^verbatim>\<open>resp\<close>. The two calls that redraw the panel change no variable.
\<close>

definition loadDomainInfo_callback :: "int \<Rightarrow> domain_time option \<Rightarrow> client \<Rightarrow> client" where
  "loadDomainInfo_callback now resp c =
     (case resp of
        None \<Rightarrow> c
      | Some r \<Rightarrow>
          let last = r_lastActive r;
              c1 = (if now - last > RESET_GAP_MS then c\<lparr>baseDomainTimeMs := 0\<rparr>
                    else c\<lparr>baseDomainTimeMs := r_time r\<rparr>)
          in case r_category r of
               None \<Rightarrow> c1
             | Some cat \<Rightarrow> if cat \<noteq> [] then c1\<lparr>currentCategory := cat\<rparr> else c1)"

text \<open>
  Page load against a service worker that answers: \<open>host\<close> is
  \<^verbatim>\<open>window.location.hostname\<close> (\<open>None\<close> when reading it throws), the request is handled
  by \<open>onMessage\<close> and the response is handed to the callback.
\<close>

definition loadDomainInfo :: "url_parser \<Rightarrow> string option \<Rightarrow> int \<Rightarrow> background \<Rightarrow> client \<Rightarrow> client \<times> background" where
  "loadDomainInfo parse host now b c =
     (let c0 = c\<lparr>currentDomain := host\<rparr>
      in case host of
           None \<Rightarrow> (c0, b)
         | Some d \<Rightarrow>
             if d = [] then (c0, b)
             else (case onMessage parse now (GetDomainTime d) b of
                     ((DomainTime r, ms), b') \<Rightarrow> (loadDomainInfo_callback now (Some r) c0, b')
                   | ((Ok v, ms), b') \<Rightarrow> (loadDomainInfo_callback now None c0, b')))"

subsection \<open>Content script: the break banner and its timers (\<^verbatim>\<open>startBreak\<close>)\<close>

text \<open>
  Every call of \<^verbatim>\<open>startBreak\<close> creates a banner element and a closure with its own
  counters; the call is an instance, named by its index in the list of all calls. The
  phase is what the banner shows. Timers are the entries of the page's timer table:
  \<^verbatim>\<open>setInterval\<close> adds an entry that re-arms itself, \<^verbatim>\<open>setTimeout\<close> one that fires once,
  \<^verbatim>\<open>clearInterval\<close> deletes the entry of the handle it is given. Each handle is a local
  constant of one closure, so a timer is identified by its callback and instance.
\<close>

datatype phase = PreStart | Active | PreEnd | Ended

datatype callback =
    PreTick nat
  | BreakTick nat
  | EndTick nat
  | EndEarly nat
  | Fade nat
  | Remove nat

record timer =
  due :: int
  every :: "int option"
  cb :: callback

record break_instance =
  durationMs :: int
  preCount :: int
  remaining :: int
  endCount :: int
  phase :: phase
  attached :: bool

datatype runtime_message = StartBreakGlobal int | EndBreakGlobal

record page =
  clock :: int
  timers :: "timer list"
  instances :: "break_instance list"
  sent :: "runtime_message list"

definition setInterval :: "callback \<Rightarrow> int \<Rightarrow> page \<Rightarrow> page" where
  "setInterval f ms p = p\<lparr>timers := timers p @ [\<lparr>due = clock p + ms, every = Some ms, cb = f\<rparr>]\<rparr>"

definition setTimeout :: "callback \<Rightarrow> int \<Rightarrow> page \<Rightarrow> page" where
  "setTimeout f ms p = p\<lparr>timers := timers p @ [\<lparr>due = clock p + ms, every = None, cb = f\<rparr>]\<rparr>"

definition clearInterval :: "callback \<Rightarrow> page \<Rightarrow> page" where
  "clearInterval f p = p\<lparr>timers := filter (\<lambda>t. cb t \<noteq> f) (timers p)\<rparr>"

text \<open>\<^verbatim>\<open>removeExistingBanner\<close>: the first banner found in the shadow root is detached.
  Nothing else of its instance is touched.\<close>

fun detach_first :: "break_instance list \<Rightarrow> break_instance list" where
  "detach_first [] = []"
| "detach_first (x # xs) = (if attached x then x\<lparr>attached := False\<rparr> # xs else x # detach_first xs)"

definition removeExistingBanner :: "page \<Rightarrow> page" where
  "removeExistingBanner p = p\<lparr>instances := detach_first (instances p)\<rparr>"

text \<open>\<^verbatim>\<open>startBreak(durationMs)\<close>, called when the clock reads \<open>now\<close>.\<close>

definition startBreak :: "int \<Rightarrow> int \<Rightarrow> page \<Rightarrow> page" where
  "startBreak now d p =
     (let p1 = removeExistingBanner (p\<lparr>clock := now\<rparr>);
          i = length (instances p1);
          p2 = p1\<lparr>instances := instances p1 @
                  [\<lparr>durationMs = d, preCount = 3, remaining = 0, endCount = 3,
                    phase = PreStart, attached = True\<rparr>]\<rparr>
      in setInterval (PreTick i) 1000 p2)"

definition upd_instance :: "nat \<Rightarrow> (break_instance \<Rightarrow> break_instance) \<Rightarrow> page \<Rightarrow> page" where
  "upd_instance i f p =
     (if i < length (instances p)
      then p\<lparr>instances := (instances p)[i := f (instances p ! i)]\<rparr>
      else p)"

definition send :: "runtime_message \<Rightarrow> page \<Rightarrow> page" where
  "send m p = p\<lparr>sent := sent p @ [m]\<rparr>"

text \<open>\<^verbatim>\<open>Math.ceil(durationMs / 1000)\<close> on an integer number of milliseconds.\<close>

definition ceil_seconds :: "int \<Rightarrow> int" where
  "ceil_seconds d = - ((- d) div 1000)"

text \<open>The body of each timer callback, for an instance \<open>x\<close> that exists.\<close>

fun run_callback :: "callback \<Rightarrow> page \<Rightarrow> page" where
  "run_callback (PreTick i) p =
     (if i < length (instances p) then
        let x = instances p ! i;
            n = preCount x - 1;
            p1 = upd_instance i (\<lambda>x. x\<lparr>preCount := n\<rparr>) p
        in if n \<le> 0 then
             let p2 = clearInterval (PreTick i) p1;
                 p3 = send (StartBreakGlobal (durationMs x)) p2;
                 p4 = upd_instance i
                        (\<lambda>x. x\<lparr>phase := Active, remaining := max 0 (ceil_seconds (durationMs x))\<rparr>) p3
             in setInterval (BreakTick i) 1000 p4
           else p1
      else p)"
| "run_callback (BreakTick i) p =
     (if i < length (instances p) then
        let x = instances p ! i;
            r = remaining x - 1;
            p1 = upd_instance i (\<lambda>x. x\<lparr>remaining := r\<rparr>) p
        in if r \<le> 0 then
             let p2 = clearInterval (BreakTick i) p1;
                 p3 = upd_instance i (\<lambda>x. x\<lparr>phase := PreEnd, endCount := 3\<rparr>) p2
             in setInterval (EndTick i) 1000 p3
           else p1
      else p)"
| "run_callback (EndTick i) p =
     (if i < length (instances p) then
        let x = instances p ! i;
            n = endCount x - 1;
            p1 = upd_instance i (\<lambda>x. x\<lparr>endCount := n\<rparr>) p
        in if n \<le> 0 then
             let p2 = clearInterval (EndTick i) p1;
                 p3 = upd_instance i (\<lambda>x. x\<lparr>phase := Ended\<rparr>) p2;
                 p4 = setTimeout (Fade i) 3000 p3
             in send EndBreakGlobal p4
           else p1
      else p)"
| "run_callback (EndEarly i) p =
     (let p1 = upd_instance i (\<lambda>x. x\<lparr>phase := Ended\<rparr>) p;
          p2 = setTimeout (Remove i) 2000 p1
      in send EndBreakGlobal p2)"
| "run_callback (Fade i) p = setTimeout (Remove i) 300 p"
| "run_callback (Remove i) p = upd_instance i (\<lambda>x. x\<lparr>attached := False\<rparr>) p"

text \<open>\<^verbatim>\<open>handleEndEarly\<close>, the click on the close button of instance \<open>i\<close> at time \<open>now\<close>.\<close>

definition handleEndEarly :: "int \<Rightarrow> nat \<Rightarrow> page \<Rightarrow> page" where
  "handleEndEarly now i p = setTimeout (EndEarly i) 1000 (clearInterval (BreakTick i) (p\<lparr>clock := now\<rparr>))"

text \<open>
  The event loop: the timer that is due first fires (the older one among equals). An
  interval is re-armed before its callback runs, a timeout is deleted.
\<close>

fun earliest :: "timer list \<Rightarrow> timer option" where
  "earliest [] = None"
| "earliest (t # ts) =
     (case earliest ts of
        None \<Rightarrow> Some t
      | Some t' \<Rightarrow> if due t \<le> due t' then Some t else Some t')"

fun rearm :: "timer \<Rightarrow> timer list \<Rightarrow> timer list" where
  "rearm t [] = []"
| "rearm t (x # xs) =
     (if x = t
      then (case every t of None \<Rightarrow> xs | Some ms \<Rightarrow> t\<lparr>due := due t + ms\<rparr> # xs)
      else x # rearm t xs)"

definition fire_next :: "page \<Rightarrow> page" where
  "fire_next p =
     (case earliest (timers p) of
        None \<Rightarrow> p
      | Some t \<Rightarrow> run_callback (cb t) (p\<lparr>clock := due t, timers := rearm t (timers p)\<rparr>))"

text \<open>
  What happens on a page, in order: a call of \<^verbatim>\<open>startBreak\<close> at a given time, a click
  on a close button at a given time, or the next timer firing. An external event is
  accepted only at a time that is not before the clock and not after the next timer is
  due; a timer fires only if there is one.
\<close>

datatype page_event = Start int int | Close int nat | Timer

definition in_time :: "int \<Rightarrow> page \<Rightarrow> bool" where
  "in_time now p =
     (clock p \<le> now \<and> (case earliest (timers p) of None \<Rightarrow> True | Some t \<Rightarrow> now \<le> due t))"

fun page_step :: "page_event \<Rightarrow> page \<Rightarrow> page option" where
  "page_step (Start now d) p = (if in_time now p then Some (startBreak now d p) else None)"
| "page_step (Close now i) p =
     (if in_time now p \<and> i < length (instances p) \<and> phase (instances p ! i) = Active
         \<and> attached (instances p ! i)
      then Some (handleEndEarly now i p) else None)"
| "page_step Timer p = (if timers p = [] then None else Some (fire_next p))"

fun page_run :: "page_event list \<Rightarrow> page \<Rightarrow> page option" where
  "page_run [] p = Some p"
| "page_run (ev # evs) p = (case page_step ev p of None \<Rightarrow> None | Some p' \<Rightarrow> page_run evs p')"

definition fresh_page :: page where
  "fresh_page = \<lparr>clock = 0, timers = [], instances = [], sent = []\<rparr>"

text \<open>The countdowns that are running: the interval timers in the table.\<close>

definition countdowns :: "page \<Rightarrow> callback list" where
  "countdowns p = map cb (filter (\<lambda>t. every t \<noteq> None) (timers p))"

subsection \<open>Observations on the messages of one tick\<close>

fun is_showBreak :: "tab_message \<Rightarrow> bool" where
  "is_showBreak (ShowBreak t) = True"
| "is_showBreak m = False"

fun is_getBack :: "tab_message \<Rightarrow> bool" where
  "is_getBack (GetBackToWork d) = True"
| "is_getBack m = False"

fun is_reset :: "bg_event \<Rightarrow> bool" where
  "is_reset (Message now ResetBreakShown) = True"
| "is_reset ev = False"

text \<open>
  The productive check as the specification words it, for comparison: the effective
  duration is the accumulated time plus the running session, or plus nothing when no
  session is running, and the first threshold of the descending list that it reaches
  and that the latch is below fires.
\<close>

definition effective_spec :: "int \<Rightarrow> background \<Rightarrow> int" where
  "effective_spec now b =
     productiveAccumulated b +
       (case productiveSessionStart b of None \<Rightarrow> 0 | Some pss \<Rightarrow> if pss = 0 then 0 else now - pss)"

definition showBreak_spec :: "int \<Rightarrow> background \<Rightarrow> tab_message list" where
  "showBreak_spec now b =
     (case find (\<lambda>t. effective_spec now b \<ge> t \<and> lastShownBreakThreshold (local b) < t)
             tick_thresholds of
        None \<Rightarrow> []
      | Some t \<Rightarrow> [ShowBreak t])"

subsection \<open>Stores the code can hold\<close>

text \<open>
  No writer of \<^verbatim>\<open>domainStats\<close> stores the empty string as a category:
  \<^verbatim>\<open>saveDomainTime\<close> stores a truthy category or keeps the one there, and the
  \<^verbatim>\<open>addDomainTime\<close> handler stores what the classifier returns, a category name of the
  map or \<^verbatim>\<open>other\<close>.
\<close>

definition no_blank_category :: "local_storage \<Rightarrow> bool" where
  "no_blank_category s = (\<forall>d e. domainStats s d = Some e \<longrightarrow> category e \<noteq> Some [])"

subsection \<open>States for the examples\<close>

text \<open>The service worker with no tab in focus, no streak and an empty store.\<close>

definition idle_bg :: background where
  "idle_bg = \<lparr>activeTabId = None, activeDomain = None, activeCategory = None, activeStart = 1,
              productiveSessionStart = None, productiveAccumulated = 0, distractingStart = None,
              local = \<lparr>domainStats = Map.empty, lastShownBreakThreshold = 0,
                       stored_productiveAccumulated = 0\<rparr>,
              sync_categoryMap = None\<rparr>"


text \<open>A store whose entry for \<^verbatim>\<open>github.com\<close> carries a category of the user's own.\<close>

definition github_bg :: background where
  "github_bg =
     idle_bg\<lparr>local := \<lparr>domainStats = [''github.com'' \<mapsto> \<lparr>time = 5000, category = Some ''fun'', lastActive = Some 1\<rparr>],
                       lastShownBreakThreshold = 0, stored_productiveAccumulated = 0\<rparr>\<rparr>"

text \<open>Three tabs on distracting sites.\<close>

definition youtube_tab :: tab where
  "youtube_tab = \<lparr>tab_id = 1, tab_url = Some ''https://www.youtube.com/''\<rparr>"

definition reddit_tab :: tab where
  "reddit_tab = \<lparr>tab_id = 2, tab_url = Some ''https://www.reddit.com/''\<rparr>"

definition twitter_tab :: tab where
  "twitter_tab = \<lparr>tab_id = 3, tab_url = Some ''https://twitter.com/home''\<rparr>"

definition fresh_client :: client where
  "fresh_client = \<lparr>currentDomain = None, currentCategory = ''-'', baseDomainTimeMs = 0, unsentAccumMs = 0\<rparr>"

section \<open>Properties\<close>

subsection \<open>Classifier\<close>

lemma str_includes_sublist: "str_includes s p = sublist p s"
  by (induction s) (auto simp: sublist_Cons_right)

lemma match_patterns_list_ex:
  "match_patterns host u ps = list_ex (\<lambda>p. p \<noteq> [] \<and> (str_includes host p \<or> str_includes u p)) ps"
  by (induction ps) auto

lemma scan_entries_find:
  "scan_entries host u m =
     map_option fst (find (\<lambda>(cat, p). p \<noteq> [] \<and> (str_includes host p \<or> str_includes u p)) (flatten_map m))"
proof (induction m)
  case Nil
  show ?case by (simp add: flatten_map_def)
next
  case (Cons e m)
  obtain cat ps where e: "e = (cat, ps)" by (cases e)
  have inner: "find (\<lambda>(cat, p). p \<noteq> [] \<and> (str_includes host p \<or> str_includes u p)) (map (Pair cat) ps @ rest)
      = (if match_patterns host u ps
         then map_option (Pair cat) (find (\<lambda>p. p \<noteq> [] \<and> (str_includes host p \<or> str_includes u p)) ps)
         else find (\<lambda>(cat, p). p \<noteq> [] \<and> (str_includes host p \<or> str_includes u p)) rest)" for rest
    by (induction ps) auto
  have some: "match_patterns host u ps \<Longrightarrow>
      \<exists>p. find (\<lambda>p. p \<noteq> [] \<and> (str_includes host p \<or> str_includes u p)) ps = Some p"
    by (induction ps) (auto split: if_splits)
  show ?case
    using Cons.IH some unfolding e flatten_map_def
    by (auto simp: inner[unfolded flatten_map_def] simp del: match_patterns.simps)
qed

lemma URL_parse_xy: "URL_parse ''https://x.com/y'' = Some \<lparr>hostname = ''x.com'', pathname = ''/y''\<rparr>"
  by (simp add: URL_parse_def split_authority_def)

lemma flatten_map_nonempty:
  "no_empty_pattern m \<Longrightarrow> (cat, p) \<in> set (flatten_map m) \<Longrightarrow> p \<noteq> []"
  by (induction m) (auto simp: no_empty_pattern_def flatten_map_def list_all_iff)

lemma find_skip_empty:
  assumes "no_empty_pattern m"
  shows "find (\<lambda>(cat, p). p \<noteq> [] \<and> Q p) (flatten_map m) = find (\<lambda>(cat, p). Q p) (flatten_map m)"
proof (rule find_cong)
  show "flatten_map m = flatten_map m" by simp
next
  fix x assume "x \<in> set (flatten_map m)"
  then show "(case x of (cat, p) \<Rightarrow> p \<noteq> [] \<and> Q p) = (case x of (cat, p) \<Rightarrow> Q p)"
    using flatten_map_nonempty[OF assms] by (cases x) auto
qed

lemma DEFAULT_CATEGORY_MAP_well_formed:
  "no_empty_pattern DEFAULT_CATEGORY_MAP \<and> no_empty_name DEFAULT_CATEGORY_MAP"
  by (simp add: no_empty_pattern_def no_empty_name_def DEFAULT_CATEGORY_MAP_def)

text \<open>
  C4: for every URL (a string the URL constructor accepts) and every category map the
  extension holds (no empty pattern), the classifier returns the category of the first
  pattern, in the iteration order of the map, that occurs as a substring of hostname
  and path or of the raw URL, and \<^verbatim>\<open>other\<close> when no pattern occurs. The result is a
  function of the URL and the map alone.
\<close>

theorem getCategoryForUrl_first_match:
  "parse u = Some pu \<Longrightarrow> no_empty_pattern m \<Longrightarrow>
   getCategoryForUrl parse u m =
     (case find (\<lambda>(cat, p). str_includes (hostname pu @ pathname pu) p \<or> str_includes u p)
             (flatten_map m) of
        Some (cat, p) \<Rightarrow> cat
      | None \<Rightarrow> ''other'')"
  by (simp add: getCategoryForUrl_def getCategoryForUrl_try_def scan_entries_find find_skip_empty
      split: option.splits)

text \<open>The example of the claim: with \<^verbatim>\<open>{A: ["x.com"], B: ["x.com/y"]}\<close> the URL
  \<^verbatim>\<open>https://x.com/y\<close> is classified as \<^verbatim>\<open>A\<close>, not \<^verbatim>\<open>B\<close>.\<close>

theorem getCategoryForUrl_first_match_witness:
  "URL_parse ''https://x.com/y'' = Some \<lparr>hostname = ''x.com'', pathname = ''/y''\<rparr> \<and>
   no_empty_pattern [(''A'', [''x.com'']), (''B'', [''x.com/y''])] \<and>
   getCategoryForUrl URL_parse ''https://x.com/y'' [(''A'', [''x.com'']), (''B'', [''x.com/y''])] = ''A''"
proof -
  have w: "no_empty_pattern [(''A'', [''x.com'']), (''B'', [''x.com/y''])]"
    by (simp add: no_empty_pattern_def)
  show ?thesis
    using w URL_parse_xy
      getCategoryForUrl_first_match
        [where parse = URL_parse and u = "''https://x.com/y''"
           and pu = "\<lparr>hostname = ''x.com'', pathname = ''/y''\<rparr>"
           and m = "[(''A'', [''x.com'']), (''B'', [''x.com/y''])]"]
    by (simp add: flatten_map_def)
qed

text \<open>
  C8: the classifier never throws. Its outcome is a returned category for every parser,
  URL and map, and a URL that the constructor rejects is classified as \<^verbatim>\<open>other\<close>.
\<close>

theorem getCategoryForUrl_never_throws:
  "getCategoryForUrl_outcome parse u m = Inr (getCategoryForUrl parse u m) \<and>
   (parse u = None \<longrightarrow> getCategoryForUrl parse u m = ''other'')"
  by (simp add: getCategoryForUrl_outcome_def getCategoryForUrl_def getCategoryForUrl_try_def
      split: option.splits sum.splits)

theorem getCategoryForUrl_never_throws_witness:
  "URL_parse ''youtube.com'' = None \<and>
   getCategoryForUrl_outcome URL_parse ''youtube.com'' DEFAULT_CATEGORY_MAP = Inr ''other''"
  using getCategoryForUrl_never_throws [of URL_parse "''youtube.com''" DEFAULT_CATEGORY_MAP]
  by (simp add: URL_parse_def)

subsection \<open>Threshold scheduler\<close>

lemma scan_thresholds_find:
  "scan_thresholds dur lastShown ts = find (\<lambda>t. dur \<ge> t \<and> lastShown < t) ts"
  by (induction ts) auto

lemma scan_thresholds_Some:
  "scan_thresholds dur lastShown ts = Some t \<Longrightarrow> t \<in> set ts \<and> t \<le> dur \<and> lastShown < t"
  by (induction ts) (auto split: if_splits)

lemma check_productive_msgs:
  "fst (check_productive now b) =
     (case productiveSessionStart b of
        None \<Rightarrow> []
      | Some pss \<Rightarrow>
          if pss = 0 then []
          else (case find (\<lambda>t. productiveAccumulated b + (now - pss) \<ge> t
                              \<and> lastShownBreakThreshold (local b) < t) tick_thresholds of
                  None \<Rightarrow> []
                | Some t \<Rightarrow> [ShowBreak t]))"
  by (simp add: check_productive_def scan_thresholds_find Let_def split: option.splits)

lemma check_productive_latch:
  "lastShownBreakThreshold (local (snd (check_productive now b))) =
     (case fst (check_productive now b) of
        ShowBreak t # ms \<Rightarrow> t
      | _ \<Rightarrow> lastShownBreakThreshold (local b))"
  by (simp add: check_productive_def Let_def split: option.splits)

lemma check_productive_fired:
  "ShowBreak t \<in> set (fst (check_productive now b)) \<Longrightarrow>
     lastShownBreakThreshold (local b) < t \<and> lastShownBreakThreshold (local (snd (check_productive now b))) = t"
  by (auto simp: check_productive_def Let_def split: option.splits if_splits dest: scan_thresholds_Some)

lemma check_productive_mono:
  "lastShownBreakThreshold (local b) \<le> lastShownBreakThreshold (local (snd (check_productive now b)))"
  by (auto simp: check_productive_def Let_def split: option.splits if_splits dest: scan_thresholds_Some)

lemma check_productive_only_showBreak:
  "filter is_getBack (fst (check_productive now b)) = []"
  "filter is_showBreak (fst (check_productive now b)) = fst (check_productive now b)"
  by (auto simp: check_productive_def Let_def split: option.splits if_splits)

lemma check_productive_frame:
  "distractingStart (snd (check_productive now b)) = distractingStart b"
  "productiveSessionStart (snd (check_productive now b)) = productiveSessionStart b"
  "productiveAccumulated (snd (check_productive now b)) = productiveAccumulated b"
  by (auto simp: check_productive_def Let_def split: option.splits if_splits)

lemma check_distracting_msgs:
  "fst (check_distracting now b) =
     (case distractingStart b of
        None \<Rightarrow> []
      | Some ds \<Rightarrow> if ds \<noteq> 0 \<and> now - ds \<ge> GET_BACK_THRESHOLD then [GetBackToWork (now - ds)] else [])"
  by (simp add: check_distracting_def Let_def split: option.splits)

lemma check_distracting_state:
  "snd (check_distracting now b) =
     (if fst (check_distracting now b) = [] then b else b\<lparr>distractingStart := None\<rparr>)"
  by (simp add: check_distracting_def Let_def split: option.splits)

lemma check_distracting_only_getBack:
  "filter is_showBreak (fst (check_distracting now b)) = []"
  "filter is_getBack (fst (check_distracting now b)) = fst (check_distracting now b)"
  by (auto simp: check_distracting_def Let_def split: option.splits if_splits)

lemma periodicChecks_fst:
  "fst (periodicChecks now b) =
     fst (check_productive now b) @ fst (check_distracting now (snd (check_productive now b)))"
  by (simp add: periodicChecks_def split: prod.splits)

lemma periodicChecks_latch:
  "lastShownBreakThreshold (local (snd (periodicChecks now b))) =
     lastShownBreakThreshold (local (snd (check_productive now b)))"
  by (auto simp: periodicChecks_def check_distracting_def Let_def split: prod.splits option.splits if_splits)

lemma periodicChecks_distractingStart:
  "distractingStart (snd (periodicChecks now b)) =
     distractingStart (snd (check_distracting now (snd (check_productive now b))))"
  by (simp add: periodicChecks_def split: prod.splits)

lemma periodicChecks_showBreak:
  "filter is_showBreak (fst (periodicChecks now b)) = fst (check_productive now b)"
  by (simp add: periodicChecks_fst check_productive_only_showBreak check_distracting_only_getBack)

lemma periodicChecks_getBack:
  "filter is_getBack (fst (periodicChecks now b)) =
     (case distractingStart b of
        None \<Rightarrow> []
      | Some ds \<Rightarrow> if ds \<noteq> 0 \<and> now - ds \<ge> GET_BACK_THRESHOLD then [GetBackToWork (now - ds)] else [])"
  by (simp add: periodicChecks_fst check_productive_only_showBreak check_distracting_only_getBack
      check_distracting_msgs check_productive_frame split: option.splits)


lemma saveDomainTime_latch:
  "lastShownBreakThreshold (saveDomainTime domain cat delta s) = lastShownBreakThreshold s"
  by (simp add: saveDomainTime_def split: option.splits)

lemma close_interval_latch:
  "lastShownBreakThreshold (local (close_interval parse now b)) = lastShownBreakThreshold (local b)"
  by (simp add: close_interval_def Let_def saveDomainTime_latch split: option.splits)

lemma open_tab_local: "local (snd (open_tab parse now tb b)) = local b"
  by (simp add: open_tab_def Let_def split: option.splits)


lemma open_tab_msgs:
  "fst (open_tab parse now tb b) = Inr ms \<Longrightarrow> filter is_showBreak ms = [] \<and> filter is_getBack ms = []"
  by (auto simp: open_tab_def Let_def split: option.splits if_splits)

lemma handleTabChange_latch:
  "lastShownBreakThreshold (local (snd (handleTabChange parse now tb b))) = lastShownBreakThreshold (local b)"
  by (simp add: handleTabChange_def open_tab_local close_interval_latch)

lemma onMessage_msgs:
  "filter is_showBreak (snd (fst (onMessage parse now rq b))) = []"
  "filter is_getBack (snd (fst (onMessage parse now rq b))) = []"
  by (cases rq; simp split: prod.splits)+

lemma onMessage_latch:
  "rq \<noteq> ResetBreakShown \<Longrightarrow>
   lastShownBreakThreshold (local (snd (onMessage parse now rq b))) = lastShownBreakThreshold (local b)"
  by (cases rq) (auto simp: addDomainTime_def getDomainTime_def Let_def split: prod.splits option.splits if_splits)

lemma onMessage_streaks:
  "distractingStart (snd (onMessage parse now rq b)) = distractingStart b"
  "productiveSessionStart (snd (onMessage parse now rq b)) = productiveSessionStart b"
  "productiveAccumulated (snd (onMessage parse now rq b)) = productiveAccumulated b"
  by (cases rq; auto simp: addDomainTime_def getDomainTime_def resetBreakShown_def Let_def
        split: prod.splits option.splits if_splits)+

lemma bg_step_latch_mono:
  "\<not> is_reset ev \<Longrightarrow>
   lastShownBreakThreshold (local b) \<le> lastShownBreakThreshold (local (snd (bg_step parse ev b)))"
proof (cases ev)
  case (Tick now)
  then show ?thesis by (simp add: periodicChecks_latch check_productive_mono)
next
  case (FocusChange now tb)
  have "lastShownBreakThreshold (local (snd (handleTabChange parse now tb b))) = lastShownBreakThreshold (local b)"
    by (rule handleTabChange_latch)
  then show ?thesis using FocusChange by (auto split: prod.splits sum.splits)
next
  case (Message now rq)
  assume "\<not> is_reset ev"
  then have "rq \<noteq> ResetBreakShown" using Message by auto
  from onMessage_latch[OF this, of parse now b] show ?thesis
    using Message by (auto split: prod.splits)
qed

lemma bg_step_showBreak:
  "ShowBreak t \<in> set (fst (bg_step parse ev b)) \<Longrightarrow> lastShownBreakThreshold (local b) < t"
proof (cases ev)
  case (Tick now)
  assume "ShowBreak t \<in> set (fst (bg_step parse ev b))"
  then have "ShowBreak t \<in> set (filter is_showBreak (fst (periodicChecks now b)))"
    using Tick by simp
  then show ?thesis by (simp add: periodicChecks_showBreak check_productive_fired)
next
  case (FocusChange now tb)
  assume a: "ShowBreak t \<in> set (fst (bg_step parse ev b))"
  show ?thesis
  proof (cases "fst (handleTabChange parse now tb b)")
    case (Inl e)
    then show ?thesis using a FocusChange by (auto split: prod.splits)
  next
    case (Inr ms)
    then have "filter is_showBreak ms = []"
      using open_tab_msgs[of parse now tb "close_interval parse now b" ms]
      by (simp add: handleTabChange_def)
    moreover have "ShowBreak t \<in> set ms" using a FocusChange Inr by (auto split: prod.splits)
    ultimately show ?thesis by (auto simp: filter_empty_conv)
  qed
next
  case (Message now rq)
  assume a: "ShowBreak t \<in> set (fst (bg_step parse ev b))"
  then have "ShowBreak t \<in> set (snd (fst (onMessage parse now rq b)))"
    using Message by (auto split: prod.splits)
  then show ?thesis using onMessage_msgs(1)[of parse now rq b] by (auto simp: filter_empty_conv)
qed

lemma bg_run_no_refire:
  "\<not> list_ex is_reset evs \<Longrightarrow> t \<le> lastShownBreakThreshold (local b) \<Longrightarrow>
   ShowBreak t \<notin> set (fst (bg_run parse evs b))"
proof (induction evs arbitrary: b)
  case Nil
  then show ?case by simp
next
  case (Cons ev evs)
  obtain ms b1 where s: "bg_step parse ev b = (ms, b1)" by (cases "bg_step parse ev b")
  have nr: "\<not> is_reset ev" and nrs: "\<not> list_ex is_reset evs" using Cons.prems(1) by auto
  have "lastShownBreakThreshold (local b) \<le> lastShownBreakThreshold (local b1)"
    using bg_step_latch_mono[OF nr, of b parse] s by simp
  then have le: "t \<le> lastShownBreakThreshold (local b1)" using Cons.prems(2) by simp
  have "ShowBreak t \<notin> set ms"
    using bg_step_showBreak[of t parse ev b] s Cons.prems(2) by auto
  moreover have "ShowBreak t \<notin> set (fst (bg_run parse evs b1))"
    using Cons.IH[OF nrs le] .
  ultimately show ?case using s by (auto split: prod.splits)
qed

text \<open>
  C2, as stated, fails: the productive check runs only while a productive session is
  open (\<^verbatim>\<open>if (productiveSessionStart)\<close>). With three hours accumulated, no open session
  and the latch at \<open>0\<close>, the effective duration of the specification has reached the
  three-hour threshold, and the tick sends no \<^verbatim>\<open>showBreak\<close>. The state arises when a
  distracting interval has been closed after three productive hours.
\<close>

theorem showBreak_closed_streak_counterexample:
  "showBreak_spec 0 (idle_bg\<lparr>productiveAccumulated := 10800000\<rparr>) = [ShowBreak 10800000] \<and>
   filter is_showBreak (fst (periodicChecks 0 (idle_bg\<lparr>productiveAccumulated := 10800000\<rparr>))) = []"
  by (simp add: showBreak_spec_def effective_spec_def tick_thresholds_def idle_bg_def
      periodicChecks_def check_productive_def check_distracting_def)

text \<open>
  C2, amended: on a tick with an open productive session, where the effective duration
  is the accumulated time plus the time since the session began, exactly the first
  threshold of \<open>[4h, 3h, 2h]\<close> that the duration has reached and the latch is strictly
  below fires, and the latch becomes that threshold; on a tick with no open session
  nothing fires. A tick sends at most one \<^verbatim>\<open>showBreak\<close>, and the latch changes only when
  one fires. In any sequence of ticks, focus changes and messages without
  \<^verbatim>\<open>resetBreakShown\<close>, a threshold that the latch has reached never fires again;
  \<^verbatim>\<open>resetBreakShown\<close> sets the latch to \<open>0\<close>.
\<close>

theorem showBreak_latch:
  "filter is_showBreak (fst (periodicChecks now b)) =
     (case productiveSessionStart b of
        None \<Rightarrow> []
      | Some pss \<Rightarrow>
          if pss = 0 then []
          else (case find (\<lambda>t. productiveAccumulated b + (now - pss) \<ge> t
                              \<and> lastShownBreakThreshold (local b) < t) tick_thresholds of
                  None \<Rightarrow> []
                | Some t \<Rightarrow> [ShowBreak t]))
   \<and> length (filter is_showBreak (fst (periodicChecks now b))) \<le> 1
   \<and> lastShownBreakThreshold (local (snd (periodicChecks now b))) =
       (case filter is_showBreak (fst (periodicChecks now b)) of
          ShowBreak t # ms \<Rightarrow> t
        | _ \<Rightarrow> lastShownBreakThreshold (local b))
   \<and> (\<not> list_ex is_reset evs \<and> T \<le> lastShownBreakThreshold (local b)
        \<longrightarrow> ShowBreak T \<notin> set (fst (bg_run parse evs b)))
   \<and> lastShownBreakThreshold (local (snd (bg_step parse (Message now' ResetBreakShown) b))) = 0"
proof -
  have one: "length (fst (check_productive now b)) \<le> 1"
    by (simp add: check_productive_msgs split: option.splits)
  show ?thesis
    using one
    by (simp add: periodicChecks_showBreak periodicChecks_latch check_productive_latch
        check_productive_msgs[symmetric] bg_run_no_refire resetBreakShown_def)
qed

text \<open>The session began at \<open>1000\<close>; the tick at two hours and one minute fires the
  two-hour threshold, the tick thirty seconds later fires nothing.\<close>

theorem showBreak_latch_witness:
  "\<not> list_ex is_reset [Tick 7291000] \<and>
   filter is_showBreak (fst (periodicChecks 7261000 (idle_bg\<lparr>productiveSessionStart := Some 1000\<rparr>)))
     = [ShowBreak 7200000] \<and>
   lastShownBreakThreshold (local (snd (periodicChecks 7261000 (idle_bg\<lparr>productiveSessionStart := Some 1000\<rparr>))))
     = 7200000 \<and>
   ShowBreak 7200000 \<notin> set (fst (bg_run URL_parse [Tick 7291000]
       (snd (periodicChecks 7261000 (idle_bg\<lparr>productiveSessionStart := Some 1000\<rparr>)))))"
  using showBreak_latch [of 7261000 "idle_bg\<lparr>productiveSessionStart := Some 1000\<rparr>"]
        showBreak_latch [of 7291000 "snd (periodicChecks 7261000 (idle_bg\<lparr>productiveSessionStart := Some 1000\<rparr>))"
                            "[Tick 7291000]" 7200000 URL_parse]
  by (simp add: idle_bg_def tick_thresholds_def)

subsection \<open>Streaks\<close>

text \<open>
  C6 does not hold of the code: the nudge fires again while the distraction continues,
  re-armed by an interval that began before the firing. A YouTube tab is in focus from
  \<open>1000\<close> and a Reddit tab from \<open>2000\<close>. The tick at \<open>901000\<close> sends \<^verbatim>\<open>getBackToWork\<close> and
  clears \<^verbatim>\<open>distractingStart\<close>; the tick at \<open>931000\<close> sends nothing. At \<open>940000\<close> the
  focus moves to a Twitter tab: closing the Reddit interval sets \<^verbatim>\<open>distractingStart\<close>
  to the start of that interval, \<open>2000\<close>, and the tick at \<open>961000\<close> sends
  \<^verbatim>\<open>getBackToWork\<close> again, sixty seconds after the first.
\<close>

theorem getBackToWork_refires_on_old_interval:
  "filter is_getBack
     (fst (bg_run URL_parse
        [FocusChange 1000 (Some youtube_tab), FocusChange 2000 (Some reddit_tab),
         Tick 901000, Tick 931000]
        idle_bg))
     = [GetBackToWork 900000]
   \<and> distractingStart
       (snd (bg_run URL_parse
          [FocusChange 1000 (Some youtube_tab), FocusChange 2000 (Some reddit_tab),
           Tick 901000, Tick 931000, FocusChange 940000 (Some twitter_tab)]
          idle_bg))
     = Some 2000
   \<and> filter is_getBack
       (fst (bg_run URL_parse
          [FocusChange 1000 (Some youtube_tab), FocusChange 2000 (Some reddit_tab),
           Tick 901000, Tick 931000, FocusChange 940000 (Some twitter_tab), Tick 961000]
          idle_bg))
     = [GetBackToWork 900000, GetBackToWork 959000]"
  by code_simp




subsection \<open>Message handlers and page load\<close>

text \<open>
  C7, as stated, fails: a request with a domain and a positive \<^verbatim>\<open>deltaMs\<close> is answered
  \<^verbatim>\<open>{ok: false}\<close> when \<^verbatim>\<open>chrome.storage.local.set\<close> is rejected; the handler's outer
  \<^verbatim>\<open>catch\<close> sends that answer.
\<close>

theorem addDomainTime_rejected_write_counterexample:
  "addDomainTime URL_parse (storage_ok\<lparr>set_rejects := True\<rparr>) 100 (Some ''github.com'') (Some 5000) idle_bg
     = (Ok False, idle_bg)"
  by (simp add: addDomainTime_def storage_ok_def or_num_def)

text \<open>
  C7, amended: an \<^verbatim>\<open>addDomainTime\<close> request whose domain is missing or empty, or whose
  \<^verbatim>\<open>deltaMs\<close> is missing or not positive, is answered \<^verbatim>\<open>{ok: false}\<close> and leaves the
  whole state, the stored statistics included, as it was, whatever the storage calls
  do. A request with a domain and a positive \<^verbatim>\<open>deltaMs\<close> is answered \<^verbatim>\<open>{ok: true}\<close> when
  the storage read and write resolve, and \<^verbatim>\<open>{ok: false}\<close> with the state as it was when
  either is rejected.
\<close>

theorem addDomainTime_validation:
  "((domain = None \<or> domain = Some [] \<or> deltaMs = None \<or> (\<exists>n. deltaMs = Some n \<and> n \<le> 0))
      \<longrightarrow> addDomainTime parse io now domain deltaMs b = (Ok False, b))
   \<and> ((\<exists>d n. domain = Some d \<and> d \<noteq> [] \<and> deltaMs = Some n \<and> 0 < n)
        \<and> \<not> get_rejects io \<and> \<not> set_rejects io
      \<longrightarrow> fst (addDomainTime parse io now domain deltaMs b) = Ok True)
   \<and> ((\<exists>d n. domain = Some d \<and> d \<noteq> [] \<and> deltaMs = Some n \<and> 0 < n)
        \<and> (get_rejects io \<or> set_rejects io)
      \<longrightarrow> addDomainTime parse io now domain deltaMs b = (Ok False, b))"
  by (auto simp: addDomainTime_def or_num_def Let_def split: option.splits)

theorem addDomainTime_validation_witness:
  "addDomainTime URL_parse storage_ok 100 None (Some 5000) idle_bg = (Ok False, idle_bg) \<and>
   addDomainTime URL_parse storage_ok 100 (Some ''github.com'') (Some (-3)) idle_bg = (Ok False, idle_bg) \<and>
   fst (addDomainTime URL_parse storage_ok 100 (Some ''github.com'') (Some 5000) idle_bg) = Ok True \<and>
   addDomainTime URL_parse (storage_ok\<lparr>get_rejects := True\<rparr>) 100 (Some ''github.com'') (Some 5000) idle_bg
     = (Ok False, idle_bg)"
  using addDomainTime_validation [of None "Some 5000" URL_parse storage_ok 100 idle_bg]
        addDomainTime_validation [of "Some ''github.com''" "Some (-3)" URL_parse storage_ok 100 idle_bg]
        addDomainTime_validation [of "Some ''github.com''" "Some 5000" URL_parse storage_ok 100 idle_bg]
        addDomainTime_validation [of "Some ''github.com''" "Some 5000" URL_parse
                                     "storage_ok\<lparr>get_rejects := True\<rparr>" 100 idle_bg]
  by (simp add: storage_ok_def)

lemma URL_parse_github:
  "URL_parse ''https://github.com'' = Some \<lparr>hostname = ''github.com'', pathname = ''/''\<rparr>"
  by (simp add: URL_parse_def split_authority_def)

lemma classify_github: "getCategoryForUrl URL_parse ''https://github.com'' DEFAULT_CATEGORY_MAP = ''productive''"
  by (simp add: getCategoryForUrl_def getCategoryForUrl_try_def URL_parse_github DEFAULT_CATEGORY_MAP_def)

lemma scan_entries_name: "scan_entries host u m = Some cat \<Longrightarrow> cat \<in> fst ` set m"
  by (induction m) (auto split: if_splits)

lemma getCategoryForUrl_nonempty: "no_empty_name m \<Longrightarrow> getCategoryForUrl parse u m \<noteq> []"
  by (auto simp: getCategoryForUrl_def getCategoryForUrl_try_def no_empty_name_def list_all_iff
      split: option.splits dest!: scan_entries_name)

lemma saveDomainTime_no_blank:
  "no_blank_category s \<Longrightarrow> no_blank_category (saveDomainTime domain cat delta s)"
  by (auto simp: no_blank_category_def saveDomainTime_def saveDomainTime_update_def Let_def
      split: option.splits if_splits)

lemma addDomainTime_no_blank:
  "no_blank_category (local b) \<Longrightarrow> no_empty_name (loadPrefs b) \<Longrightarrow>
   no_blank_category (local (snd (addDomainTime parse io now domain deltaMs b)))"
  using getCategoryForUrl_nonempty[of "loadPrefs b" parse]
  by (auto simp: no_blank_category_def addDomainTime_def addDomainTime_update_def
      addDomainTime_update_no_prefs_def truthy_str_def Let_def split: option.splits if_splits)

lemma close_interval_no_blank:
  "no_blank_category (local b) \<Longrightarrow> no_blank_category (local (close_interval parse now b))"
  by (simp add: close_interval_def Let_def saveDomainTime_no_blank split: option.splits)

lemma periodicChecks_no_blank:
  "no_blank_category (local b) \<Longrightarrow> no_blank_category (local (snd (periodicChecks now b)))"
  by (auto simp: no_blank_category_def periodicChecks_def check_productive_def check_distracting_def
      Let_def split: prod.splits option.splits if_splits)

lemma bg_step_prefs: "loadPrefs (snd (bg_step parse ev b)) = loadPrefs b"
proof (cases ev)
  case (Tick now)
  then show ?thesis
    by (auto simp: loadPrefs_def periodicChecks_def check_productive_def check_distracting_def
        Let_def split: prod.splits option.splits if_splits)
next
  case (FocusChange now tb)
  have "sync_categoryMap (close_interval parse now b) = sync_categoryMap b"
    by (simp add: close_interval_def Let_def split: option.splits)
  moreover have "sync_categoryMap (snd (open_tab parse now tb b')) = sync_categoryMap b'" for b'
    by (simp add: open_tab_def Let_def split: option.splits)
  ultimately have "sync_categoryMap (snd (handleTabChange parse now tb b)) = sync_categoryMap b"
    by (simp add: handleTabChange_def)
  then show ?thesis using FocusChange by (auto simp: loadPrefs_def split: prod.splits sum.splits)
next
  case (Message now rq)
  then show ?thesis
    by (cases rq)
       (auto simp: loadPrefs_def addDomainTime_def getDomainTime_def resetBreakShown_def Let_def
          split: prod.splits option.splits if_splits)
qed

lemma bg_step_no_blank:
  assumes "no_blank_category (local b)" and "no_empty_name (loadPrefs b)"
  shows "no_blank_category (local (snd (bg_step parse ev b)))"
proof (cases ev)
  case (Tick now)
  then show ?thesis using assms(1) by (simp add: periodicChecks_no_blank)
next
  case (FocusChange now tb)
  have "local (snd (handleTabChange parse now tb b)) = local (close_interval parse now b)"
    by (simp add: handleTabChange_def open_tab_local)
  then have "no_blank_category (local (snd (handleTabChange parse now tb b)))"
    using close_interval_no_blank[OF assms(1)] by simp
  then show ?thesis using FocusChange by (auto split: prod.splits sum.splits)
next
  case (Message now rq)
  show ?thesis
  proof (cases rq)
    case (AddDomainTime domain deltaMs)
    then show ?thesis
      using Message addDomainTime_no_blank[OF assms, of parse storage_ok now domain deltaMs]
      by (cases "addDomainTime parse storage_ok now domain deltaMs b") auto
  qed (use Message assms(1) in
        \<open>auto simp: no_blank_category_def getDomainTime_def resetBreakShown_def Let_def\<close>)
qed

text \<open>Every store reached from one without a blank category, under a map without an
  empty category name, is without a blank category.\<close>

lemma bg_run_no_blank:
  "no_blank_category (local b) \<Longrightarrow> no_empty_name (loadPrefs b) \<Longrightarrow>
   no_blank_category (local (snd (bg_run parse evs b)))"
proof (induction evs arbitrary: b)
  case Nil
  then show ?case by simp
next
  case (Cons ev evs)
  obtain ms b1 where s: "bg_step parse ev b = (ms, b1)" by (cases "bg_step parse ev b")
  have "no_blank_category (local b1)"
    using bg_step_no_blank[OF Cons.prems, of parse ev] s by simp
  moreover have "no_empty_name (loadPrefs b1)"
    using bg_step_prefs[of parse ev b] s Cons.prems(2) by simp
  ultimately have "no_blank_category (local (snd (bg_run parse evs b1)))"
    by (rule Cons.IH)
  then show ?case using s by (auto split: prod.splits)
qed

lemma idle_bg_no_blank: "no_blank_category (local idle_bg) \<and> no_empty_name (loadPrefs idle_bg)"
  by (simp add: no_blank_category_def idle_bg_def loadPrefs_def DEFAULT_CATEGORY_MAP_well_formed)

text \<open>
  C10: on a store the code can hold (no entry has the empty string as category), for
  every \<^verbatim>\<open>addDomainTime\<close> request on a domain whose stored entry has a non-null category,
  the category of the entry after the call equals the category before, whatever the
  classifier would answer now and whatever the storage calls do.
\<close>

theorem addDomainTime_keeps_category:
  "no_blank_category (local b) \<Longrightarrow> domainStats (local b) d = Some e \<Longrightarrow> category e = Some c \<Longrightarrow>
   map_option category
     (domainStats (local (snd (addDomainTime parse io now (Some d) deltaMs b))) d)
     = Some (Some c)"
  by (auto simp: no_blank_category_def addDomainTime_def addDomainTime_update_def
      addDomainTime_update_no_prefs_def truthy_str_def Let_def split: option.splits)

text \<open>The entry of \<^verbatim>\<open>github.com\<close> keeps the category \<^verbatim>\<open>fun\<close>, where the classifier
  answers \<^verbatim>\<open>productive\<close>.\<close>

theorem addDomainTime_keeps_category_witness:
  "no_blank_category (local github_bg) \<and>
   domainStats (local github_bg) ''github.com'' = Some \<lparr>time = 5000, category = Some ''fun'', lastActive = Some 1\<rparr> \<and>
   getCategoryForUrl URL_parse ''https://github.com'' (loadPrefs github_bg) = ''productive'' \<and>
   map_option category
     (domainStats (local (snd (addDomainTime URL_parse storage_ok 100 (Some ''github.com'') (Some 1000) github_bg)))
        ''github.com'')
     = Some (Some ''fun'')"
proof -
  have i: "no_blank_category (local github_bg)"
    by (simp add: no_blank_category_def github_bg_def idle_bg_def)
  have e: "domainStats (local github_bg) ''github.com'' = Some \<lparr>time = 5000, category = Some ''fun'', lastActive = Some 1\<rparr>"
    by (simp add: github_bg_def idle_bg_def)
  have c: "category \<lparr>time = 5000, category = Some ''fun'', lastActive = Some 1\<rparr> = Some ''fun''"
    by simp
  have g: "getCategoryForUrl URL_parse ''https://github.com'' (loadPrefs github_bg) = ''productive''"
    by (simp add: loadPrefs_def github_bg_def idle_bg_def classify_github)
  show ?thesis
    using i e g addDomainTime_keeps_category [OF i e c, of URL_parse storage_ok 100 "Some 1000"] by simp
qed

lemma loadDomainInfo_callback_base:
  "baseDomainTimeMs (loadDomainInfo_callback now (Some r) c) =
     (if now - r_lastActive r > RESET_GAP_MS then 0 else r_time r)"
  by (simp add: loadDomainInfo_callback_def Let_def split: option.splits)

text \<open>
  C5: at page load, with the persisted time and \<^verbatim>\<open>lastActive\<close> of the current domain
  fetched (an entry without \<^verbatim>\<open>lastActive\<close> counts as last active at \<open>0\<close>), the base time
  is \<open>0\<close> if \<open>now - lastActive\<close> exceeds thirty minutes and the persisted time otherwise;
  the state of the service worker, the store included, is unchanged.
\<close>

theorem loadDomainInfo_reset_gap:
  "d \<noteq> [] \<Longrightarrow> domainStats (local b) d = Some e \<Longrightarrow>
   snd (loadDomainInfo parse (Some d) now b c) = b \<and>
   baseDomainTimeMs (fst (loadDomainInfo parse (Some d) now b c)) =
     (if now - or_num (lastActive e) 0 > RESET_GAP_MS then 0 else time e)"
  by (simp add: loadDomainInfo_def getDomainTime_def loadDomainInfo_callback_base)

text \<open>Last active 31 minutes ago: the base time is \<open>0\<close>. 29 minutes ago: it is the
  persisted \<open>5000\<close>.\<close>

theorem loadDomainInfo_reset_gap_witness:
  "''github.com'' \<noteq> [] \<and>
   domainStats (local github_bg) ''github.com'' = Some \<lparr>time = 5000, category = Some ''fun'', lastActive = Some 1\<rparr> \<and>
   snd (loadDomainInfo URL_parse (Some ''github.com'') (1 + 31 * 60 * 1000) github_bg fresh_client) = github_bg \<and>
   baseDomainTimeMs (fst (loadDomainInfo URL_parse (Some ''github.com'') (1 + 31 * 60 * 1000) github_bg fresh_client)) = 0 \<and>
   baseDomainTimeMs (fst (loadDomainInfo URL_parse (Some ''github.com'') (1 + 29 * 60 * 1000) github_bg fresh_client)) = 5000"
proof -
  have n: "''github.com'' \<noteq> []" by simp
  have e: "domainStats (local github_bg) ''github.com'' = Some \<lparr>time = 5000, category = Some ''fun'', lastActive = Some 1\<rparr>"
    by (simp add: github_bg_def idle_bg_def)
  show ?thesis
    using e loadDomainInfo_reset_gap [OF n e, of URL_parse "1 + 31 * 60 * 1000" fresh_client]
          loadDomainInfo_reset_gap [OF n e, of URL_parse "1 + 29 * 60 * 1000" fresh_client]
    by (simp add: RESET_GAP_MS_def or_num_def)
qed

subsection \<open>Interleaved updates of the statistics\<close>

lemma saveDomainTime_update_time:
  "(case saveDomainTime_update d cat delta m d of None \<Rightarrow> 0 | Some e \<Rightarrow> time e)
     = (case m d of None \<Rightarrow> 0 | Some e \<Rightarrow> time e) + delta"
  by (simp add: saveDomainTime_update_def Let_def split: option.splits)

lemma addDomainTime_update_time:
  "(case addDomainTime_update parse prefs now d delta m d of None \<Rightarrow> 0 | Some e \<Rightarrow> time e)
     = (case m d of None \<Rightarrow> 0 | Some e \<Rightarrow> time e) + delta"
  by (simp add: addDomainTime_update_def Let_def split: option.splits)

lemma rmw_update_time:
  "(case rmw_update parse prefs r m (rmw_domain r) of None \<Rightarrow> 0 | Some e \<Rightarrow> time e)
     = (case m (rmw_domain r) of None \<Rightarrow> 0 | Some e \<Rightarrow> time e) + rmw_delta r"
  by (cases r) (simp_all add: saveDomainTime_update_time addDomainTime_update_time)

lemma run_sequential:
  "snd (run_schedule parse prefs [0, 0, 1, 1] ([Pending r1, Pending r2], s))
     = s\<lparr>domainStats := rmw_update parse prefs r2 (rmw_update parse prefs r1 (domainStats s))\<rparr>"
  by simp

lemma run_sequential':
  "snd (run_schedule parse prefs [1, 1, 0, 0] ([Pending r1, Pending r2], s))
     = s\<lparr>domainStats := rmw_update parse prefs r1 (rmw_update parse prefs r2 (domainStats s))\<rparr>"
  by simp

lemma run_overlap_second_last:
  "snd (run_schedule parse prefs [0, 1, 0, 1] ([Pending r1, Pending r2], s))
     = s\<lparr>domainStats := rmw_update parse prefs r2 (domainStats s)\<rparr>"
  "snd (run_schedule parse prefs [1, 0, 0, 1] ([Pending r1, Pending r2], s))
     = s\<lparr>domainStats := rmw_update parse prefs r2 (domainStats s)\<rparr>"
  by simp_all

lemma run_overlap_first_last:
  "snd (run_schedule parse prefs [0, 1, 1, 0] ([Pending r1, Pending r2], s))
     = s\<lparr>domainStats := rmw_update parse prefs r1 (domainStats s)\<rparr>"
  "snd (run_schedule parse prefs [1, 0, 1, 0] ([Pending r1, Pending r2], s))
     = s\<lparr>domainStats := rmw_update parse prefs r1 (domainStats s)\<rparr>"
  by simp_all

lemma stored_time_update:
  "stored_time (s\<lparr>domainStats := rmw_update parse prefs r m\<rparr>) (rmw_domain r)
     = (case m (rmw_domain r) of None \<Rightarrow> 0 | Some e \<Rightarrow> time e) + rmw_delta r"
  by (simp add: stored_time_def rmw_update_time)

text \<open>
  C3, as stated, fails: nothing serializes the two sequences. Two \<^verbatim>\<open>addDomainTime\<close>
  requests for \<^verbatim>\<open>github.com\<close>, of 5000 and 7000 milliseconds, both read the empty store
  before either writes; the second write replaces the first, and 7000 is stored
  instead of 12000.
\<close>

theorem overlapping_updates_lose_one_counterexample:
  "stored_time
     (snd (run_schedule URL_parse DEFAULT_CATEGORY_MAP [0, 1, 0, 1]
        ([Pending (AddTime ''github.com'' 5000 100), Pending (AddTime ''github.com'' 7000 200)],
         local idle_bg))) ''github.com'' = 7000
   \<and> stored_time (local idle_bg) ''github.com'' + 5000 + 7000 = 12000
   \<and> stored_time
     (snd (run_schedule URL_parse DEFAULT_CATEGORY_MAP [0, 1, 0, 1]
        ([Pending (AddTime ''github.com'' 5000 100), Pending (AddTime ''github.com'' 7000 200)],
         local idle_bg))) ''github.com''
       \<noteq> stored_time (local idle_bg) ''github.com'' + 5000 + 7000"
  by (simp add: stored_time_def idle_bg_def addDomainTime_update_def)

text \<open>
  C3, amended: for two read-modify-write sequences on the same domain (from
  \<^verbatim>\<open>saveDomainTime\<close> or from the \<^verbatim>\<open>addDomainTime\<close> handler), when one sequence reads after
  the other has written, the persisted time of the domain ends as the prior value plus
  both deltas; when both read before either writes, it ends as the prior value plus
  the delta of the sequence that writes last.
\<close>

theorem serialized_updates_add_up:
  assumes "rmw_domain r1 = d" and "rmw_domain r2 = d"
  shows
  "stored_time (snd (run_schedule parse prefs [0, 0, 1, 1] ([Pending r1, Pending r2], s))) d
     = stored_time s d + rmw_delta r1 + rmw_delta r2
   \<and> stored_time (snd (run_schedule parse prefs [1, 1, 0, 0] ([Pending r1, Pending r2], s))) d
     = stored_time s d + rmw_delta r1 + rmw_delta r2
   \<and> stored_time (snd (run_schedule parse prefs [0, 1, 0, 1] ([Pending r1, Pending r2], s))) d
     = stored_time s d + rmw_delta r2
   \<and> stored_time (snd (run_schedule parse prefs [1, 0, 0, 1] ([Pending r1, Pending r2], s))) d
     = stored_time s d + rmw_delta r2
   \<and> stored_time (snd (run_schedule parse prefs [0, 1, 1, 0] ([Pending r1, Pending r2], s))) d
     = stored_time s d + rmw_delta r1
   \<and> stored_time (snd (run_schedule parse prefs [1, 0, 1, 0] ([Pending r1, Pending r2], s))) d
     = stored_time s d + rmw_delta r1"
proof -
  have one: "stored_time (s\<lparr>domainStats := rmw_update parse prefs r1 (domainStats s)\<rparr>) d
      = stored_time s d + rmw_delta r1"
    using stored_time_update[where s=s and parse=parse and prefs=prefs and r=r1 and m="domainStats s"] assms(1)
    by (simp add: stored_time_def)
  have two: "stored_time (s\<lparr>domainStats := rmw_update parse prefs r2 (domainStats s)\<rparr>) d
      = stored_time s d + rmw_delta r2"
    using stored_time_update[where s=s and parse=parse and prefs=prefs and r=r2 and m="domainStats s"] assms(2)
    by (simp add: stored_time_def)
  have seq12: "stored_time (s\<lparr>domainStats := rmw_update parse prefs r2 (rmw_update parse prefs r1 (domainStats s))\<rparr>) d
      = stored_time s d + rmw_delta r1 + rmw_delta r2"
    using stored_time_update[where s=s and parse=parse and prefs=prefs and r=r2 and m="rmw_update parse prefs r1 (domainStats s)"]
          rmw_update_time[where parse=parse and prefs=prefs and r=r1 and m="domainStats s"] assms
    by (simp add: stored_time_def)
  have seq21: "stored_time (s\<lparr>domainStats := rmw_update parse prefs r1 (rmw_update parse prefs r2 (domainStats s))\<rparr>) d
      = stored_time s d + rmw_delta r1 + rmw_delta r2"
    using stored_time_update[where s=s and parse=parse and prefs=prefs and r=r1 and m="rmw_update parse prefs r2 (domainStats s)"]
          rmw_update_time[where parse=parse and prefs=prefs and r=r2 and m="domainStats s"] assms
    by (simp add: stored_time_def)
  show ?thesis
    by (simp only: run_sequential run_sequential' run_overlap_second_last run_overlap_first_last
        one two seq12 seq21)
qed

theorem serialized_updates_add_up_witness:
  "rmw_domain (SaveTime ''github.com'' ''productive'' 5000) = ''github.com'' \<and>
   rmw_domain (AddTime ''github.com'' 7000 200) = ''github.com'' \<and>
   stored_time (snd (run_schedule URL_parse DEFAULT_CATEGORY_MAP [0, 0, 1, 1]
      ([Pending (SaveTime ''github.com'' ''productive'' 5000), Pending (AddTime ''github.com'' 7000 200)],
       local github_bg))) ''github.com'' = 17000 \<and>
   stored_time (snd (run_schedule URL_parse DEFAULT_CATEGORY_MAP [0, 1, 0, 1]
      ([Pending (SaveTime ''github.com'' ''productive'' 5000), Pending (AddTime ''github.com'' 7000 200)],
       local github_bg))) ''github.com'' = 12000"
proof -
  have a: "rmw_domain (SaveTime ''github.com'' ''productive'' 5000) = ''github.com''" by simp
  have b: "rmw_domain (AddTime ''github.com'' 7000 200) = ''github.com''" by simp
  have t: "stored_time (local github_bg) ''github.com'' = 5000"
    by (simp add: stored_time_def github_bg_def idle_bg_def)
  show ?thesis
    using a b t serialized_updates_add_up [OF a b, where parse=URL_parse and prefs=DEFAULT_CATEGORY_MAP and s="local github_bg"]
    by simp
qed

subsection \<open>Break banner\<close>

lemma startBreak_keeps_timers:
  "timers (startBreak now d p) =
     timers p @ [\<lparr>due = now + 1000, every = Some 1000, cb = PreTick (length (instances p))\<rparr>]"
proof -
  have len: "length (detach_first xs) = length xs" for xs
    by (induction xs) auto
  show ?thesis
    by (simp add: startBreak_def setInterval_def removeExistingBanner_def Let_def len)
qed

lemma startBreak_countdowns:
  "countdowns (startBreak now d p) = countdowns p @ [PreTick (length (instances p))]"
  by (simp add: countdowns_def startBreak_keeps_timers)

text \<open>
  C1 does not hold of \<^verbatim>\<open>startBreak\<close>: \<^verbatim>\<open>removeExistingBanner\<close> detaches the old banner
  and cancels no timer. A break of ten minutes is started at \<open>0\<close> and another at
  \<open>1500\<close>, while the first is counting down to its start. Both countdowns are then in
  the timer table; the ticks of the first keep firing, it sends its own
  \<^verbatim>\<open>startBreakGlobal\<close> at \<open>3000\<close> and counts its remaining time down beside the second,
  with its banner detached.
\<close>

theorem second_break_leaves_first_running:
  "map_option countdowns (page_run [Start 0 600000, Timer, Start 1500 600000] fresh_page)
     = Some [PreTick 0, PreTick 1]
   \<and> map_option sent
       (page_run [Start 0 600000, Timer, Start 1500 600000, Timer, Timer, Timer, Timer, Timer, Timer]
          fresh_page)
     = Some [StartBreakGlobal 600000, StartBreakGlobal 600000]
   \<and> map_option countdowns
       (page_run [Start 0 600000, Timer, Start 1500 600000, Timer, Timer, Timer, Timer, Timer, Timer]
          fresh_page)
     = Some [BreakTick 0, BreakTick 1]
   \<and> map_option (map attached \<circ> instances)
       (page_run [Start 0 600000, Timer, Start 1500 600000, Timer, Timer, Timer, Timer, Timer, Timer]
          fresh_page)
     = Some [False, True]"
  by code_simp

end
